theory Spec2Isabelle
  imports Main "HOL-Library.Sublist"
begin

section \<open>JavaScript values\<close>

text \<open>
  An optional string is \<open>undefined\<close> (\<open>None\<close>) or a string. JavaScript treats
  \<open>undefined\<close> and the empty string as false in a condition.
\<close>

definition truthy :: "string option \<Rightarrow> bool" where
  "truthy v = (case v of None \<Rightarrow> False | Some s \<Rightarrow> s \<noteq> [])"

text \<open>\<open>Array.prototype.join\<close> on an array of strings.\<close>

fun join :: "string \<Rightarrow> string list \<Rightarrow> string" where
  "join sep [] = []"
| "join sep [x] = x"
| "join sep (x # y # ys) = x @ sep @ join sep (y # ys)"

text \<open>
  \<open>String.prototype.replace\<close> with a string pattern replaces the first occurrence
  only, and expands the replacement string first: \<open>$$\<close> stands for \<open>$\<close>, \<open>$&\<close> for
  the matched text, \<open>$\<close> with a backquote for the text before the match and \<open>$\<close> with
  an apostrophe for the text after it. A string pattern has no capture groups, so
  \<open>$\<close> before a digit or \<open><\<close>, like every other \<open>$\<close>, stands for itself.
\<close>

fun getSubstitution :: "string \<Rightarrow> string \<Rightarrow> string \<Rightarrow> string \<Rightarrow> string" where
  "getSubstitution matched preceding following [] = []"
| "getSubstitution matched preceding following [c] = [c]"
| "getSubstitution matched preceding following (c # d # rest) =
     (if c = CHR ''$'' \<and> d = CHR ''$''
        then CHR ''$'' # getSubstitution matched preceding following rest
      else if c = CHR ''$'' \<and> d = CHR ''&''
        then matched @ getSubstitution matched preceding following rest
      else if c = CHR ''$'' \<and> d = CHR 0x60
        then preceding @ getSubstitution matched preceding following rest
      else if c = CHR ''$'' \<and> d = CHR 0x27
        then following @ getSubstitution matched preceding following rest
      else c # getSubstitution matched preceding following (d # rest))"

text \<open>The search for the first occurrence, with the text already passed over.\<close>

fun replace_from :: "string \<Rightarrow> string \<Rightarrow> string \<Rightarrow> string \<Rightarrow> string" where
  "replace_from pat rep preceding [] =
     (if pat = [] then preceding @ getSubstitution pat preceding [] rep else preceding)"
| "replace_from pat rep preceding (c # cs) =
     (if prefix pat (c # cs)
      then preceding @ getSubstitution pat preceding (drop (length pat) (c # cs)) rep
           @ drop (length pat) (c # cs)
      else replace_from pat rep (preceding @ [c]) cs)"

definition replace :: "string \<Rightarrow> string \<Rightarrow> string \<Rightarrow> string" where
  "replace pat rep s = replace_from pat rep [] s"

section \<open>Data model\<close>

text \<open>
  A source of an operation: a collection id and, optionally, the variables requested
  from it.
\<close>

record source =
  collection :: string
  variables :: "string list option"

text \<open>
  The fields of \<open>DataOperation\<close> that service selection and the local adapter read or
  write. Of the bounding rectangle only its presence is ever tested.
\<close>

record DataOperation =
  sources :: "source list"
  outputFormat :: "string option"
  boundingRectangle :: "int list option"
  callback :: string

text \<open>
  The request context is an object, as the parameter's type \<open>RequestContext\<close> says;
  its list of requested mime types may be absent.
\<close>

record RequestContext =
  requestedMimeTypes :: "string list option"

text \<open>
  A service configuration from \<open>services.yml\<close>. The module's own \<open>noOpService\<close> is a
  \<open>ServiceConfig\<close> with neither \<open>collections\<close> nor \<open>capabilities.subsetting\<close>, and with
  a \<open>message\<close> assigned later, so these properties are optional; \<open>type\<close> is read
  without a guard.
\<close>

record ServiceType =
  type_name :: string
  synchronous_only :: "bool option"
  single_granule_requests :: "bool option"

record Subsetting =
  variable :: "bool option"
  bbox :: "bool option"

record Capabilities =
  output_formats :: "string list option"
  subsetting :: "Subsetting option"

record ServiceConfig =
  name :: string
  service_type :: ServiceType
  collections :: "string list option"
  capabilities :: "Capabilities option"
  message :: "string option"

text \<open>
  What JavaScript raises in the code below: the module's \<open>UnsupportedOperation\<close> with
  its message, the \<open>NotFoundError\<close> of \<open>buildService\<close> with its message, and the
  runtime's \<open>TypeError\<close> for a property read on \<open>undefined\<close> or a call of \<open>new\<close> on
  something that is not a constructor.
\<close>

datatype error =
    UnsupportedOperation string
  | NotFoundError string
  | TypeError

text \<open>
  Module state: the mutable module-level object \<open>noOpService\<close> and the lines handed to
  \<open>logger.info\<close>.
\<close>

record module_state =
  noOpService :: ServiceConfig
  logged :: "string list"

definition noOpService_initial :: ServiceConfig where
  "noOpService_initial =
     \<lparr> name = ''noOpService'',
       service_type = \<lparr> type_name = ''noOp'', synchronous_only = None,
                        single_granule_requests = None \<rparr>,
       collections = None,
       capabilities = Some \<lparr> output_formats = Some [''application/json''],
                               subsetting = None \<rparr>,
       message = None \<rparr>"

definition module_initial :: module_state where
  "module_initial = \<lparr> noOpService = noOpService_initial, logged = [] \<rparr>"

text \<open>
  What \<open>chooseServiceConfig\<close> returns: a reference to the module's \<open>noOpService\<close>
  object, one of the candidate configurations, or \<open>undefined\<close> (element 0 of an empty
  array).
\<close>

datatype chosen =
    NoOpServiceRef
  | Config ServiceConfig
  | Undefined

definition deref :: "module_state \<Rightarrow> chosen \<Rightarrow> ServiceConfig option" where
  "deref st r = (case r of NoOpServiceRef \<Rightarrow> Some (noOpService st)
                         | Config c \<Rightarrow> Some c
                         | Undefined \<Rightarrow> None)"

section \<open>Service selection\<close>

text \<open>\<open>getIn(config, 'capabilities.output_formats', [])\<close>\<close>

definition getIn_output_formats :: "ServiceConfig \<Rightarrow> string list" where
  "getIn_output_formats config =
     (case capabilities config of
        None \<Rightarrow> []
      | Some cap \<Rightarrow> (case output_formats cap of None \<Rightarrow> [] | Some fs \<Rightarrow> fs))"

text \<open>
  \<open>getIn(config, 'capabilities.subsetting.variable', false)\<close> and the same for
  \<open>bbox\<close>: the field selector is the last path component.
\<close>

definition getIn_subsetting :: "(Subsetting \<Rightarrow> bool option) \<Rightarrow> ServiceConfig \<Rightarrow> bool" where
  "getIn_subsetting field config =
     (case capabilities config of
        None \<Rightarrow> False
      | Some cap \<Rightarrow>
          (case subsetting cap of
             None \<Rightarrow> False
           | Some s \<Rightarrow> (case field s of None \<Rightarrow> False | Some b \<Rightarrow> b)))"

text \<open>
  \<open>operation.sources.every((source) => serviceConfig.collections.includes(source.collection))\<close>:
  the callback runs on each source until one gives false; on a configuration without
  \<open>collections\<close> its first run raises a \<open>TypeError\<close>.
\<close>

fun every_includes :: "string list option \<Rightarrow> source list \<Rightarrow> error + bool" where
  "every_includes cs [] = Inr True"
| "every_includes cs (s # ss) =
     (case cs of
        None \<Rightarrow> Inl TypeError
      | Some l \<Rightarrow> if collection s \<in> set l then every_includes cs ss else Inr False)"

definition isCollectionMatch :: "DataOperation \<Rightarrow> ServiceConfig \<Rightarrow> error + bool" where
  "isCollectionMatch operation serviceConfig =
     every_includes (collections serviceConfig) (sources operation)"

text \<open>\<open>Array.prototype.filter\<close> with a callback that may raise.\<close>

fun filter_raising :: "('a \<Rightarrow> error + bool) \<Rightarrow> 'a list \<Rightarrow> error + 'a list" where
  "filter_raising p [] = Inr []"
| "filter_raising p (x # xs) =
     (case p x of
        Inl e \<Rightarrow> Inl e
      | Inr b \<Rightarrow>
          (case filter_raising p xs of
             Inl e \<Rightarrow> Inl e
           | Inr ys \<Rightarrow> Inr (if b then x # ys else ys)))"

text \<open>
  \<open>isMimeTypeAccepted\<close> comes from \<open>util/content-negotiation\<close> and \<open>listToText\<close> from
  \<open>util/string\<close>; both are parameters here (\<open>accepted\<close> and \<open>listToText\<close>).
\<close>

definition selectServicesForFormat ::
  "(string \<Rightarrow> string \<Rightarrow> bool) \<Rightarrow> string \<Rightarrow> ServiceConfig list \<Rightarrow> ServiceConfig list" where
  "selectServicesForFormat accepted format configs =
     filter (\<lambda>config. truthy (find (\<lambda>f. accepted f format) (getIn_output_formats config)))
       configs"

text \<open>
  The loop of \<open>selectFormat\<close> over the requested mime types, with the local
  \<open>outputFormat\<close> as accumulator.
\<close>

fun selectFormat_loop ::
  "(string \<Rightarrow> string \<Rightarrow> bool) \<Rightarrow> ServiceConfig list \<Rightarrow> string option \<Rightarrow> string list
     \<Rightarrow> string option" where
  "selectFormat_loop accepted configs out [] = out"
| "selectFormat_loop accepted configs out (mimeType # rest) =
     (let out' = (case selectServicesForFormat accepted mimeType configs of
                    [] \<Rightarrow> out
                  | service # _ \<Rightarrow>
                      find (\<lambda>f. accepted f mimeType) (getIn_output_formats service))
      in if truthy out' then out' else selectFormat_loop accepted configs out' rest)"

definition selectFormat ::
  "(string \<Rightarrow> string \<Rightarrow> bool) \<Rightarrow> DataOperation \<Rightarrow> RequestContext \<Rightarrow> ServiceConfig list
     \<Rightarrow> string option" where
  "selectFormat accepted operation context configs =
     (case requestedMimeTypes context of
        Some (m # ms) \<Rightarrow>
          if truthy (outputFormat operation) then outputFormat operation
          else selectFormat_loop accepted configs (outputFormat operation) (m # ms)
      | _ \<Rightarrow> outputFormat operation)"

definition requiresVariableSubsetting :: "DataOperation \<Rightarrow> bool" where
  "requiresVariableSubsetting operation =
     (filter (\<lambda>s. case variables s of None \<Rightarrow> False | Some vs \<Rightarrow> length vs > 0)
        (sources operation) \<noteq> [])"

definition supportsVariableSubsetting :: "ServiceConfig list \<Rightarrow> ServiceConfig list" where
  "supportsVariableSubsetting configs = filter (getIn_subsetting variable) configs"

definition requiresSpatialSubsetting :: "DataOperation \<Rightarrow> bool" where
  "requiresSpatialSubsetting operation = (boundingRectangle operation \<noteq> None)"

definition supportsSpatialSubsetting :: "ServiceConfig list \<Rightarrow> ServiceConfig list" where
  "supportsSpatialSubsetting configs = filter (getIn_subsetting bbox) configs"

text \<open>
  A filter stage takes the operation, the context and the configurations matched so
  far; it returns the operation as it leaves it, and the matches or the exception.
\<close>

type_synonym stage =
  "DataOperation \<Rightarrow> RequestContext \<Rightarrow> ServiceConfig list
     \<Rightarrow> DataOperation \<times> (error + ServiceConfig list)"

definition filterCollectionMatches :: stage where
  "filterCollectionMatches operation context configs =
     (case filter_raising (isCollectionMatch operation) configs of
        Inl e \<Rightarrow> (operation, Inl e)
      | Inr matches \<Rightarrow>
          if length matches = 0
          then (operation,
                Inl (UnsupportedOperation ''no services are configured for the collection''))
          else (operation, Inr matches))"

definition filterVariableSubsettingMatches :: stage where
  "filterVariableSubsettingMatches operation context configs =
     (let variableSubsettingNeeded = requiresVariableSubsetting operation;
          matches = (if variableSubsettingNeeded then supportsVariableSubsetting configs
                     else configs)
      in if length matches = 0
         then (operation,
               Inl (UnsupportedOperation
                 ''none of the services configured for the collection support variable subsetting''))
         else (operation, Inr matches))"

text \<open>
  The text of \<open>operation.outputFormat || context.requestedMimeTypes\<close> inside a template
  literal: the string itself, the array's elements joined by commas, or \<open>undefined\<close>.
\<close>

definition format_or_mimeTypes :: "DataOperation \<Rightarrow> RequestContext \<Rightarrow> string" where
  "format_or_mimeTypes operation context =
     (if truthy (outputFormat operation) then the (outputFormat operation)
      else (case requestedMimeTypes context of
              None \<Rightarrow> ''undefined''
            | Some ms \<Rightarrow> join '','' ms))"

definition filterOutputFormatMatches :: "(string \<Rightarrow> string \<Rightarrow> bool) \<Rightarrow> stage" where
  "filterOutputFormatMatches accepted operation context configs =
     (let (operation', services) =
        (if truthy (outputFormat operation)
            \<or> (case requestedMimeTypes context of
                  None \<Rightarrow> False
                | Some ms \<Rightarrow> length ms > 0)
         then (let out = selectFormat accepted operation context configs
               in if truthy out
                  then (operation\<lparr>outputFormat := out\<rparr>,
                        selectServicesForFormat accepted (the out) configs)
                  else (operation, []))
         else (operation, configs))
      in if length services = 0
         then (operation',
               Inl (UnsupportedOperation
                 (''none of the services configured for the collection support ''
                  @ ''reformatting to any of the requested formats ''
                  @ ''['' @ format_or_mimeTypes operation' context @ '']'')))
         else (operation', Inr services))"

definition filterSpatialSubsettingMatches :: stage where
  "filterSpatialSubsettingMatches operation context configs =
     (let services = (if requiresSpatialSubsetting operation
                      then supportsSpatialSubsetting configs else configs)
      in if length services = 0
         then (operation,
               Inl (UnsupportedOperation
                 ''none of the services configured for the collection support spatial subsetting''))
         else (operation, Inr services))"

definition unsupportedCombinationMessage ::
  "(string list \<Rightarrow> string) \<Rightarrow> DataOperation \<Rightarrow> RequestContext \<Rightarrow> string" where
  "unsupportedCombinationMessage listToText operation context =
     (let collections = map collection (sources operation);
          formats = (if truthy (outputFormat operation)
                     then Some [the (outputFormat operation)]
                     else requestedMimeTypes context);
          formats = map_option (filter (\<lambda>f. f \<noteq> ''*'' \<and> f \<noteq> ''*/*'')) formats;
          requestedOptions =
            (if requiresVariableSubsetting operation then [''variable subsetting''] else [])
            @ (if requiresSpatialSubsetting operation then [''spatial subsetting''] else [])
            @ (case formats of
                 None \<Rightarrow> []
               | Some fs \<Rightarrow>
                   if length fs > 0 then [''reformatting to '' @ listToText fs] else [])
      in if length requestedOptions > 0
         then ''the requested combination of operations: '' @ listToText requestedOptions
              @ '' on '' @ listToText collections @ '' is unsupported''
         else ''no operations can be performed on '' @ listToText collections)"

definition operationFilterFns :: "(string \<Rightarrow> string \<Rightarrow> bool) \<Rightarrow> stage list" where
  "operationFilterFns accepted =
     [filterCollectionMatches,
      filterVariableSubsettingMatches,
      filterOutputFormatMatches accepted,
      filterSpatialSubsettingMatches]"

text \<open>
  The \<open>for\<close> loop of \<open>chooseServiceConfig\<close>: each stage gets the matches of the one
  before; an exception ends the loop and keeps what the stages did to the operation.
\<close>

fun runFilters ::
  "stage list \<Rightarrow> DataOperation \<Rightarrow> RequestContext \<Rightarrow> ServiceConfig list
     \<Rightarrow> DataOperation \<times> (error + ServiceConfig list)" where
  "runFilters [] operation context matches = (operation, Inr matches)"
| "runFilters (filterFn # fns) operation context matches =
     (case filterFn operation context matches of
        (operation', Inl e) \<Rightarrow> (operation', Inl e)
      | (operation', Inr matches') \<Rightarrow> runFilters fns operation' context matches')"

text \<open>
  \<open>chooseServiceConfig\<close> with the candidate list always given. It returns the value or
  the exception, the operation and the module state as the call leaves them. No stage
  assigns to a candidate configuration, so the candidates are passed by value; the one
  configuration object that is written, \<open>noOpService\<close>, lives in the module state.
\<close>

definition chooseServiceConfig ::
  "(string \<Rightarrow> string \<Rightarrow> bool) \<Rightarrow> (string list \<Rightarrow> string) \<Rightarrow> module_state
     \<Rightarrow> DataOperation \<Rightarrow> RequestContext \<Rightarrow> ServiceConfig list
     \<Rightarrow> (error + chosen) \<times> DataOperation \<times> module_state" where
  "chooseServiceConfig accepted listToText st operation context configs =
     (case runFilters (operationFilterFns accepted) operation context configs of
        (operation', Inr matches) \<Rightarrow>
          (Inr (case matches of [] \<Rightarrow> Undefined | m # _ \<Rightarrow> Config m), operation', st)
      | (operation', Inl (UnsupportedOperation msg)) \<Rightarrow>
          (Inr NoOpServiceRef, operation',
           st\<lparr> noOpService :=
                 (noOpService st)\<lparr> message :=
                   Some (unsupportedCombinationMessage listToText operation' context) \<rparr>,
               logged := logged st @ [''Returning download links because '' @ msg @ ''.''] \<rparr>)
      | (operation', Inl e) \<Rightarrow> (Inl e, operation', st))"

text \<open>
  JavaScript hands the candidates to \<open>chooseServiceConfig\<close> as references to
  configuration objects. A reference points to the module's \<open>noOpService\<close> object
  (which a caller holds once a call has returned it) or to one of the other
  configuration objects, numbered. The heap holds the module state and these objects.
\<close>

datatype descriptor_ref =
    ModuleNoOpService
  | Configured nat

record heap =
  module_part :: module_state
  objects :: "nat \<Rightarrow> ServiceConfig"

definition read_descriptor :: "heap \<Rightarrow> descriptor_ref \<Rightarrow> ServiceConfig" where
  "read_descriptor h r =
     (case r of
        ModuleNoOpService \<Rightarrow> noOpService (module_part h)
      | Configured i \<Rightarrow> objects h i)"

text \<open>
  \<open>chooseServiceConfig\<close> on references: the stages read the candidates through the
  heap. The only assignment to a configuration object in the module is
  \<open>noOpService.message = ...\<close> in the \<open>catch\<close> branch, so the call leaves the heap with
  the module state as \<open>chooseServiceConfig\<close> leaves it and every other object as it was.
\<close>

definition chooseServiceConfig_on_heap ::
  "(string \<Rightarrow> string \<Rightarrow> bool) \<Rightarrow> (string list \<Rightarrow> string) \<Rightarrow> heap
     \<Rightarrow> DataOperation \<Rightarrow> RequestContext \<Rightarrow> descriptor_ref list
     \<Rightarrow> (error + chosen) \<times> DataOperation \<times> heap" where
  "chooseServiceConfig_on_heap accepted listToText h operation context candidates =
     (case chooseServiceConfig accepted listToText (module_part h) operation context
             (map (read_descriptor h) candidates) of
        (result, operation', st') \<Rightarrow> (result, operation', h\<lparr> module_part := st' \<rparr>))"

section \<open>Service factory\<close>

datatype ServiceClass = HttpService | MessageQueueService | ArgoService | NoOpService

text \<open>
  \<open>serviceTypesToServiceClasses\<close> is an object literal. Reading it under a key gives
  one of its own four properties, or else what every object literal inherits from
  \<open>Object.prototype\<close> under that key, or else \<open>undefined\<close>. An inherited value is a
  function or an object, so it is true in a condition.
\<close>

datatype property_value =
    Class ServiceClass
  | Inherited string
  | undefined_value

definition serviceTypesToServiceClasses :: "(string \<times> ServiceClass) list" where
  "serviceTypesToServiceClasses =
     [(''http'', HttpService),
      (''queue'', MessageQueueService),
      (''argo'', ArgoService),
      (''noOp'', NoOpService)]"

definition objectPrototypeProperties :: "string list" where
  "objectPrototypeProperties =
     [''constructor'', ''hasOwnProperty'', ''isPrototypeOf'', ''propertyIsEnumerable'',
      ''toLocaleString'', ''toString'', ''valueOf'', ''__proto__'',
      ''__defineGetter__'', ''__defineSetter__'', ''__lookupGetter__'', ''__lookupSetter__'']"

definition property_of_serviceTypesToServiceClasses :: "string \<Rightarrow> property_value" where
  "property_of_serviceTypesToServiceClasses key =
     (case map_of serviceTypesToServiceClasses key of
        Some c \<Rightarrow> Class c
      | None \<Rightarrow> if key \<in> set objectPrototypeProperties then Inherited key
                else undefined_value)"

text \<open>
  What \<open>buildService\<close> returns: a service of a registered class, an
  \<open>AsynchronizerService\<close> around the value found in the table, or, from
  \<open>new Object(serviceConfig, operation)\<close>, the configuration object itself.
\<close>

datatype service =
    Service ServiceClass ServiceConfig DataOperation
  | AsynchronizerService property_value ServiceConfig DataOperation
  | ConfigObject ServiceConfig

text \<open>
  \<open>new ServiceClass(serviceConfig, operation)\<close>: the inherited \<open>constructor\<close> is
  \<open>Object\<close>, which returns its first argument; the other inherited values are not
  constructors.
\<close>

definition new_ServiceClass ::
  "property_value \<Rightarrow> ServiceConfig \<Rightarrow> DataOperation \<Rightarrow> error + service" where
  "new_ServiceClass v serviceConfig operation =
     (case v of
        Class c \<Rightarrow> Inr (Service c serviceConfig operation)
      | Inherited key \<Rightarrow>
          if key = ''constructor'' then Inr (ConfigObject serviceConfig) else Inl TypeError
      | undefined_value \<Rightarrow> Inl TypeError)"

definition flag :: "bool option \<Rightarrow> bool" where
  "flag b = (case b of None \<Rightarrow> False | Some v \<Rightarrow> v)"

text \<open>
  The message of the \<open>NotFoundError\<close> interpolates \<open>serviceConfig.type\<close>, an object.
\<close>

definition notFoundMessage :: string where
  "notFoundMessage =
     ''Could not find an appropriate service class for type ''
     @ [CHR 0x22] @ ''[object Object]'' @ [CHR 0x22]"

definition buildService :: "ServiceConfig \<Rightarrow> DataOperation \<Rightarrow> error + service" where
  "buildService serviceConfig operation =
     (let ServiceClass =
            property_of_serviceTypesToServiceClasses (type_name (service_type serviceConfig))
      in if ServiceClass = undefined_value then Inl (NotFoundError notFoundMessage)
         else if flag (synchronous_only (service_type serviceConfig))
                 \<or> flag (single_granule_requests (service_type serviceConfig))
         then Inr (AsynchronizerService ServiceClass serviceConfig operation)
         else new_ServiceClass ServiceClass serviceConfig operation)"

section \<open>Local Docker service\<close>

text \<open>
  A request posted with axios: the base URL of the client and the query parameters.
\<close>

record post_request =
  baseURL :: string
  query :: "(string \<times> string) list"

definition childProcessAborted :: "string \<Rightarrow> post_request list \<Rightarrow> post_request list" where
  "childProcessAborted callbackUrl posted =
     posted @ [\<lparr> baseURL = callbackUrl @ ''/response'',
                  query = [(''error'', ''Service request failed with an unknown error.'')] \<rparr>]"

text \<open>
  The part of \<open>_invokeAsync\<close> that deals with the callback: it keeps the operation's
  callback as \<open>originalCallback\<close>, rewrites the operation's callback for the container
  and registers the exit listener, which closes over \<open>originalCallback\<close>. The result is
  the operation as rewritten and the captured \<open>originalCallback\<close>. The argument is
  \<open>process.env.CALLBACK_HOST\<close>. (The Docker arguments and the granule workaround for
  one named service do not touch the callback and are left out.)
\<close>

definition invokeAsync :: "string option \<Rightarrow> DataOperation \<Rightarrow> DataOperation \<times> string" where
  "invokeAsync CALLBACK_HOST operation =
     (let originalCallback = callback operation
      in (operation\<lparr> callback :=
            replace ''localhost''
              (if truthy CALLBACK_HOST then the CALLBACK_HOST else ''host.docker.internal'')
              (callback operation) \<rparr>,
          originalCallback))"

text \<open>
  The listener of the child's \<open>exit\<close> event, with the exit code and signal (each may be
  \<open>null\<close>) and the requests posted so far. \<open>isUrlBound\<close> comes from
  \<open>backends/service-response\<close> and is a parameter: its answer at the time of the exit.
\<close>

definition exitListener ::
  "(string \<Rightarrow> bool) \<Rightarrow> string \<Rightarrow> int option \<Rightarrow> string option
     \<Rightarrow> post_request list \<Rightarrow> post_request list" where
  "exitListener isUrlBound originalCallback code signal posted =
     (if isUrlBound originalCallback then childProcessAborted originalCallback posted
      else posted)"

section \<open>Example inputs\<close>

definition plain_source :: source where
  "plain_source = \<lparr> collection = ''C1-PROV'', variables = None \<rparr>"

definition variable_source :: source where
  "variable_source = \<lparr> collection = ''C1-PROV'', variables = Some [''V1''] \<rparr>"

definition plain_operation :: DataOperation where
  "plain_operation =
     \<lparr> sources = [plain_source], outputFormat = None, boundingRectangle = None,
       callback = ''http://localhost:3000/service/1'' \<rparr>"

definition variable_operation :: DataOperation where
  "variable_operation =
     \<lparr> sources = [variable_source], outputFormat = None, boundingRectangle = None,
       callback = ''http://localhost:3000/service/2'' \<rparr>"

definition png_context :: RequestContext where
  "png_context = \<lparr> requestedMimeTypes = Some [''image/png'', ''*/*''] \<rparr>"

definition wildcard_context :: RequestContext where
  "wildcard_context = \<lparr> requestedMimeTypes = Some [''*/*'', ''*''] \<rparr>"

definition http_type :: ServiceType where
  "http_type = \<lparr> type_name = ''http'', synchronous_only = None,
                  single_granule_requests = None \<rparr>"

definition tiff_service :: ServiceConfig where
  "tiff_service =
     \<lparr> name = ''tiff-service'', service_type = http_type,
       collections = Some [''C1-PROV''],
       capabilities = Some \<lparr> output_formats = Some [''image/tiff''], subsetting = None \<rparr>,
       message = None \<rparr>"

definition png_service :: ServiceConfig where
  "png_service =
     \<lparr> name = ''png-service'', service_type = http_type,
       collections = Some [''C1-PROV''],
       capabilities = Some \<lparr> output_formats = Some [''image/png'', ''image/tiff''],
                               subsetting = None \<rparr>,
       message = None \<rparr>"

definition other_png_service :: ServiceConfig where
  "other_png_service = png_service\<lparr> name := ''other-png-service'' \<rparr>"

definition constructor_service :: ServiceConfig where
  "constructor_service =
     \<lparr> name = ''misconfigured'',
       service_type = \<lparr> type_name = ''constructor'', synchronous_only = None,
                        single_granule_requests = None \<rparr>,
       collections = Some [''C1-PROV''],
       capabilities = None,
       message = None \<rparr>"

definition spatial_operation :: DataOperation where
  "spatial_operation =
     \<lparr> sources = [], outputFormat = None, boundingRectangle = Some [0, 0, 10, 10],
       callback = ''http://localhost:3000/service/3'' \<rparr>"

definition empty_context :: RequestContext where
  "empty_context = \<lparr> requestedMimeTypes = None \<rparr>"

definition example_heap :: heap where
  "example_heap =
     \<lparr> module_part = module_initial,
       objects = (\<lambda>i. if i = 0 then tiff_service else png_service) \<rparr>"

section \<open>Auxiliary predicate\<close>

text \<open>
  What every filter stage guarantees about its result: the operation is unchanged or
  has a non-empty output format assigned; returned matches are a non-empty selection
  of the given ones, in their order; an exception is an \<open>UnsupportedOperation\<close> or a
  \<open>TypeError\<close>.
\<close>

definition stage_result ::
  "DataOperation \<Rightarrow> ServiceConfig list \<Rightarrow> DataOperation \<times> (error + ServiceConfig list)
     \<Rightarrow> bool" where
  "stage_result op ms res =
     ((fst res = op \<or> (\<exists>f. f \<noteq> [] \<and> fst res = op\<lparr>outputFormat := Some f\<rparr>)) \<and>
      (case snd res of
         Inr ms' \<Rightarrow> ms' \<noteq> [] \<and> (\<exists>P. ms' = filter P ms)
       | Inl e \<Rightarrow> e = TypeError \<or> (\<exists>m. e = UnsupportedOperation m)))"

section \<open>Properties of the filter stages\<close>

lemma filter_raising_Inr:
  "filter_raising p xs = Inr ys \<Longrightarrow> ys = filter (\<lambda>x. p x = Inr True) xs"
  by (induction xs arbitrary: ys) (auto split: sum.splits if_splits)

lemma every_includes_Inl: "every_includes cs ss = Inl e \<Longrightarrow> e = TypeError"
  by (induction cs ss rule: every_includes.induct) (auto split: option.splits if_splits)

lemma filter_raising_Inl:
  "filter_raising (isCollectionMatch op) xs = Inl e \<Longrightarrow> e = TypeError"
  by (induction xs) (auto simp: isCollectionMatch_def split: sum.splits dest: every_includes_Inl)

lemma filterOutputFormatMatches_Inr:
  assumes "filterOutputFormatMatches acc op ctx ms = (op', Inr ms')"
  shows "ms' \<noteq> [] \<and> (\<exists>P. ms' = filter P ms) \<and>
         (op' = op \<or> (\<exists>f. f \<noteq> [] \<and> op' = op\<lparr>outputFormat := Some f\<rparr>))"
proof (cases "truthy (outputFormat op)
    \<or> (case requestedMimeTypes ctx of None \<Rightarrow> False | Some ms \<Rightarrow> length ms > 0)")
  case False
  with assms have "op' = op" "ms' = ms" "ms \<noteq> []"
    by (auto simp: filterOutputFormatMatches_def Let_def split: if_splits)
  moreover have "ms = filter (\<lambda>_. True) ms" by simp
  ultimately show ?thesis by blast
next
  case True
  define out where "out = selectFormat acc op ctx ms"
  show ?thesis
  proof (cases "truthy out")
    case False
    with True assms show ?thesis
      by (simp add: filterOutputFormatMatches_def Let_def out_def)
  next
    case t: True
    then obtain f where f: "out = Some f" "f \<noteq> []"
      by (auto simp: truthy_def split: option.splits)
    from True t assms have "op' = op\<lparr>outputFormat := out\<rparr>"
      "ms' = selectServicesForFormat acc (the out) ms" "ms' \<noteq> []"
      by (auto simp: filterOutputFormatMatches_def Let_def out_def split: if_splits)
    with f show ?thesis
      unfolding selectServicesForFormat_def by auto
  qed
qed

lemma filterOutputFormatMatches_Inl:
  assumes "filterOutputFormatMatches acc op ctx ms = (op', Inl e)"
  shows "(\<exists>m. e = UnsupportedOperation m) \<and>
         (op' = op \<or> (\<exists>f. f \<noteq> [] \<and> op' = op\<lparr>outputFormat := Some f\<rparr>))"
  using assms
  by (auto simp: filterOutputFormatMatches_def Let_def truthy_def
      split: if_splits option.splits prod.splits)

lemma stage_filterCollectionMatches:
  "stage_result op ms (filterCollectionMatches op ctx ms)"
  by (auto simp: stage_result_def filterCollectionMatches_def split: sum.splits
      dest: filter_raising_Inl filter_raising_Inr)

lemma stage_filterVariableSubsettingMatches:
  "stage_result op ms (filterVariableSubsettingMatches op ctx ms)"
  by (auto simp: stage_result_def filterVariableSubsettingMatches_def Let_def
      supportsVariableSubsetting_def intro: exI[of _ "\<lambda>_. True"])

lemma stage_filterSpatialSubsettingMatches:
  "stage_result op ms (filterSpatialSubsettingMatches op ctx ms)"
  by (auto simp: stage_result_def filterSpatialSubsettingMatches_def Let_def
      supportsSpatialSubsetting_def intro: exI[of _ "\<lambda>_. True"])

lemma stage_filterOutputFormatMatches:
  "stage_result op ms (filterOutputFormatMatches acc op ctx ms)"
proof (cases "filterOutputFormatMatches acc op ctx ms")
  case (Pair op' r)
  then show ?thesis
    using filterOutputFormatMatches_Inr[of acc op ctx ms op']
      filterOutputFormatMatches_Inl[of acc op ctx ms op']
    by (cases r) (auto simp: stage_result_def)
qed

text \<open>A stage run on the matches of an earlier one keeps the guarantee.\<close>

lemma stage_result_trans:
  assumes "stage_result op ms (op1, Inr ms1)" "stage_result op1 ms1 res"
  shows "stage_result op ms res"
proof -
  from assms(1) obtain P where P: "ms1 = filter P ms" by (auto simp: stage_result_def)
  have fr: "fst res = op \<or> (\<exists>f. f \<noteq> [] \<and> fst res = op\<lparr>outputFormat := Some f\<rparr>)"
    using assms by (auto simp: stage_result_def)
  show ?thesis
  proof (cases "snd res")
    case (Inl e)
    with assms(2) fr show ?thesis by (simp add: stage_result_def)
  next
    case (Inr ms2)
    with assms(2) obtain Q where "ms2 = filter Q ms1" "ms2 \<noteq> []"
      by (auto simp: stage_result_def)
    with P have "ms2 = filter (\<lambda>c. P c \<and> Q c) ms" "ms2 \<noteq> []"
      by (auto simp: conj_commute)
    with Inr fr show ?thesis unfolding stage_result_def by auto
  qed
qed

lemma stage_then:
  assumes first: "stage_result op ms (f op ctx ms)"
    and rest: "\<And>o1 m1. stage_result o1 m1 (runFilters fns o1 ctx m1)"
  shows "stage_result op ms (runFilters (f # fns) op ctx ms)"
proof (cases "f op ctx ms")
  case (Pair o2 r)
  show ?thesis
  proof (cases r)
    case (Inl e)
    with Pair first show ?thesis by simp
  next
    case (Inr m2)
    with Pair first have "stage_result op ms (o2, Inr m2)" by simp
    from stage_result_trans[OF this rest[of o2 m2]] Pair Inr show ?thesis by simp
  qed
qed

lemma runFilters_result:
  "stage_result op ms (runFilters (operationFilterFns acc) op ctx ms)"
proof -
  have r4: "stage_result o1 m1 (runFilters [filterSpatialSubsettingMatches] o1 ctx m1)"
    for o1 m1
    using stage_filterSpatialSubsettingMatches[of o1 m1 ctx]
    by (cases "filterSpatialSubsettingMatches o1 ctx m1") (auto split: sum.splits)
  have r3: "stage_result o1 m1
      (runFilters [filterOutputFormatMatches acc, filterSpatialSubsettingMatches] o1 ctx m1)"
    for o1 m1
    by (rule stage_then[OF stage_filterOutputFormatMatches r4])
  have r2: "stage_result o1 m1
      (runFilters [filterVariableSubsettingMatches, filterOutputFormatMatches acc,
         filterSpatialSubsettingMatches] o1 ctx m1)"
    for o1 m1
    by (rule stage_then[OF stage_filterVariableSubsettingMatches r3])
  show ?thesis
    unfolding operationFilterFns_def
    by (rule stage_then[OF stage_filterCollectionMatches r2])
qed

lemma runFilters_Inr:
  assumes "runFilters (operationFilterFns acc) op ctx ms = (op', Inr ms')"
  shows "ms' \<noteq> []" "\<exists>P. ms' = filter P ms"
  using runFilters_result[of op ms acc ctx] assms by (auto simp: stage_result_def)


lemma sublist_join: "x \<in> set xs \<Longrightarrow> sublist x (join sep xs)"
proof (induction sep xs rule: join.induct)
  case (1 sep)
  then show ?case by simp
next
  case (2 sep y)
  then show ?case by simp
next
  case (3 sep a b ys)
  show ?case
  proof (cases "x = a")
    case True
    then show ?thesis by simp
  next
    case False
    with 3 have "sublist x (join sep (b # ys))" by simp
    then have "sublist x ((a @ sep) @ join sep (b # ys))"
      unfolding sublist_def by (metis append.assoc)
    then show ?thesis by simp
  qed
qed

lemma join_renders_items: "\<forall>xs. \<forall>x\<in>set xs. sublist x (join sep xs)"
  by (simp add: sublist_join)

lemma message_variable_subsetting:
  assumes "\<forall>xs. \<forall>x\<in>set xs. sublist x (listToText xs)"
    and "requiresVariableSubsetting operation"
  shows "sublist ''variable subsetting''
           (unsupportedCombinationMessage listToText operation ctx)"
proof -
  obtain opts where m: "unsupportedCombinationMessage listToText operation ctx
     = ''the requested combination of operations: ''
       @ listToText (''variable subsetting'' # opts)
       @ '' on '' @ listToText (map collection (sources operation)) @ '' is unsupported''"
    using assms(2) by (auto simp: unsupportedCombinationMessage_def Let_def)
  from assms(1)
  have "sublist ''variable subsetting'' (listToText (''variable subsetting'' # opts))"
    by simp
  then obtain ps ss
    where "listToText (''variable subsetting'' # opts) = ps @ ''variable subsetting'' @ ss"
    unfolding sublist_def by blast
  then have "unsupportedCombinationMessage listToText operation ctx
     = (''the requested combination of operations: '' @ ps) @ ''variable subsetting''
       @ (ss @ '' on '' @ listToText (map collection (sources operation))
          @ '' is unsupported'')"
    unfolding m by simp
  then show ?thesis unfolding sublist_def by blast
qed

text \<open>The example inputs, evaluated.\<close>

lemmas example_defs =
  plain_source_def variable_source_def plain_operation_def variable_operation_def
  png_context_def wildcard_context_def http_type_def tiff_service_def png_service_def
  other_png_service_def constructor_service_def noOpService_initial_def module_initial_def
  spatial_operation_def empty_context_def example_heap_def

lemmas selection_defs =
  operationFilterFns_def filterCollectionMatches_def filterVariableSubsettingMatches_def
  filterOutputFormatMatches_def filterSpatialSubsettingMatches_def isCollectionMatch_def
  requiresVariableSubsetting_def requiresSpatialSubsetting_def supportsVariableSubsetting_def
  supportsSpatialSubsetting_def selectFormat_def selectServicesForFormat_def
  getIn_output_formats_def getIn_subsetting_def truthy_def format_or_mimeTypes_def Let_def


section \<open>Selection: fallback, exceptions and tie-break\<close>

text \<open>
  Claim C1. Whenever a filter stage raises \<open>UnsupportedOperation\<close>,
  \<open>chooseServiceConfig\<close> does not raise: it returns the module's \<open>noOpService\<close>
  object, whose \<open>message\<close> is then what \<open>unsupportedCombinationMessage\<close> builds from the
  operation (as the stages left it) and the context. Any other exception of a stage is
  raised by \<open>chooseServiceConfig\<close> unchanged, and the module state is untouched.
\<close>

theorem chooseServiceConfig_unsupported_or_raise:
  "(runFilters (operationFilterFns accepted) operation context configs
      = (operation', Inl (UnsupportedOperation reason)) \<longrightarrow>
      (\<exists>st'. chooseServiceConfig accepted listToText st operation context configs
               = (Inr NoOpServiceRef, operation', st')
           \<and> deref st' NoOpServiceRef
               = Some ((noOpService st)\<lparr> message :=
                    Some (unsupportedCombinationMessage listToText operation' context) \<rparr>)))
   \<and> (runFilters (operationFilterFns accepted) operation context configs
        = (operation', Inl e) \<longrightarrow>
      (\<forall>reason. e \<noteq> UnsupportedOperation reason) \<longrightarrow>
      chooseServiceConfig accepted listToText st operation context configs
        = (Inl e, operation', st))"
  by (cases e) (auto simp: chooseServiceConfig_def deref_def)

theorem chooseServiceConfig_unsupported_or_raise_witness:
  "(\<exists>st'. chooseServiceConfig (=) (join '', '') module_initial plain_operation png_context []
            = (Inr NoOpServiceRef, plain_operation, st')
        \<and> deref st' NoOpServiceRef
            = Some (noOpService_initial\<lparr> message := Some
                ''the requested combination of operations: reformatting to image/png on C1-PROV is unsupported'' \<rparr>))
   \<and> chooseServiceConfig (=) (join '', '') module_initial plain_operation png_context
        [noOpService_initial]
      = (Inl TypeError, plain_operation, module_initial)"
proof -
  have u: "runFilters (operationFilterFns (=)) plain_operation png_context []
      = (plain_operation,
         Inl (UnsupportedOperation ''no services are configured for the collection''))"
    by (simp add: operationFilterFns_def filterCollectionMatches_def)
  have t: "runFilters (operationFilterFns (=)) plain_operation png_context [noOpService_initial]
      = (plain_operation, Inl TypeError)"
    by (simp add: operationFilterFns_def filterCollectionMatches_def isCollectionMatch_def
        example_defs)
  have m: "unsupportedCombinationMessage (join '', '') plain_operation png_context
      = ''the requested combination of operations: reformatting to image/png on C1-PROV is unsupported''"
    by (simp add: unsupportedCombinationMessage_def selection_defs example_defs)
  have n: "noOpService module_initial = noOpService_initial"
    by (simp add: module_initial_def)
  from chooseServiceConfig_unsupported_or_raise
         [THEN conjunct1, rule_format, OF u, of "join '', ''" module_initial]
       chooseServiceConfig_unsupported_or_raise
         [THEN conjunct2, rule_format, OF t, of "join '', ''" module_initial]
  show ?thesis
    by (simp add: m n)
qed

text \<open>
  Claim C4. On an empty candidate list \<open>chooseServiceConfig\<close> returns the module's
  \<open>noOpService\<close> object, for every operation and context, and does not raise.
\<close>

theorem chooseServiceConfig_no_candidates:
  "\<exists>st'. chooseServiceConfig accepted listToText st operation context []
          = (Inr NoOpServiceRef, operation, st')
       \<and> deref st' NoOpServiceRef
          = Some ((noOpService st)\<lparr> message :=
               Some (unsupportedCombinationMessage listToText operation context) \<rparr>)"
  by (simp add: chooseServiceConfig_def operationFilterFns_def filterCollectionMatches_def
      deref_def)

text \<open>
  Claim C6. When the four stages return matches (no stage raises), the matches are
  not empty, they are the candidates that survived, in the order of the candidate
  list, and \<open>chooseServiceConfig\<close> returns the first of them: the first candidate of
  the list that survives all stages. With two candidates that both survive, this is
  the one listed first.
\<close>

theorem chooseServiceConfig_first_match:
  assumes "runFilters (operationFilterFns accepted) operation context configs
             = (operation', Inr matches)"
  shows "matches \<noteq> []
       \<and> matches = filter (\<lambda>c. c \<in> set matches) configs
       \<and> find (\<lambda>c. c \<in> set matches) configs = Some (hd matches)
       \<and> chooseServiceConfig accepted listToText st operation context configs
           = (Inr (Config (hd matches)), operation', st)"
proof -
  from runFilters_Inr[OF assms] obtain P
    where ne: "matches \<noteq> []" and P: "matches = filter P configs"
    by blast
  have "filter (\<lambda>c. c \<in> set (filter P configs)) configs = filter P configs"
    by (rule filter_cong) auto
  with P have m: "matches = filter (\<lambda>c. c \<in> set matches) configs" by simp
  have "find Q xs = Some (hd (filter Q xs))" if "filter Q xs \<noteq> []"
    for Q :: "ServiceConfig \<Rightarrow> bool" and xs
    using that by (induction xs) auto
  from this[of "\<lambda>c. c \<in> set matches" configs] m ne
  have f: "find (\<lambda>c. c \<in> set matches) configs = Some (hd matches)" by simp
  from assms ne
  have "chooseServiceConfig accepted listToText st operation context configs
           = (Inr (Config (hd matches)), operation', st)"
    by (cases matches) (auto simp: chooseServiceConfig_def)
  with ne m f show ?thesis by blast
qed

theorem chooseServiceConfig_first_match_witness:
  "runFilters (operationFilterFns (=)) plain_operation png_context
     [png_service, other_png_service]
     = (plain_operation\<lparr>outputFormat := Some ''image/png''\<rparr>,
        Inr [png_service, other_png_service])
   \<and> chooseServiceConfig (=) (join '', '') module_initial plain_operation png_context
       [png_service, other_png_service]
     = (Inr (Config png_service), plain_operation\<lparr>outputFormat := Some ''image/png''\<rparr>,
        module_initial)"
proof -
  have r: "runFilters (operationFilterFns (=)) plain_operation png_context
     [png_service, other_png_service]
     = (plain_operation\<lparr>outputFormat := Some ''image/png''\<rparr>,
        Inr [png_service, other_png_service])"
    by (simp add: selection_defs example_defs)
  from chooseServiceConfig_first_match[OF r, of "join '', ''" module_initial] r
  show ?thesis by simp
qed


section \<open>Selection: output format and variable subsetting\<close>

text \<open>
  Claim C3. For an operation with no output format, the requested mime types
  \<open>image/png\<close>, \<open>*/*\<close> in this order, and the two candidates supporting
  \<open>image/tiff\<close> and \<open>image/png\<close>, \<open>image/tiff\<close>, the output-format stage sets the
  operation's output format to \<open>image/png\<close> and returns exactly the second candidate.
  Of \<open>isMimeTypeAccepted\<close> this uses that \<open>image/png\<close> is accepted for \<open>image/png\<close>
  and \<open>image/tiff\<close> is not.
\<close>

theorem filterOutputFormatMatches_png:
  assumes "outputFormat operation = None"
    and "requestedMimeTypes context = Some [''image/png'', ''*/*'']"
    and "getIn_output_formats d1 = [''image/tiff'']"
    and "getIn_output_formats d2 = [''image/png'', ''image/tiff'']"
    and "accepted ''image/png'' ''image/png''"
    and "\<not> accepted ''image/tiff'' ''image/png''"
  shows "filterOutputFormatMatches accepted operation context [d1, d2]
           = (operation\<lparr>outputFormat := Some ''image/png''\<rparr>, Inr [d2])"
proof -
  have s: "selectServicesForFormat accepted ''image/png'' [d1, d2] = [d2]"
    using assms(3-6) by (simp add: selectServicesForFormat_def truthy_def)
  have "selectFormat accepted operation context [d1, d2] = Some ''image/png''"
    using assms s by (simp add: selectFormat_def truthy_def Let_def)
  with s assms(1,2) show ?thesis
    by (simp add: filterOutputFormatMatches_def truthy_def Let_def)
qed

theorem filterOutputFormatMatches_png_witness:
  "outputFormat plain_operation = None
   \<and> requestedMimeTypes png_context = Some [''image/png'', ''*/*'']
   \<and> getIn_output_formats tiff_service = [''image/tiff'']
   \<and> getIn_output_formats png_service = [''image/png'', ''image/tiff'']
   \<and> filterOutputFormatMatches (=) plain_operation png_context [tiff_service, png_service]
       = (plain_operation\<lparr>outputFormat := Some ''image/png''\<rparr>, Inr [png_service])"
proof -
  have h: "outputFormat plain_operation = None"
    "requestedMimeTypes png_context = Some [''image/png'', ''*/*'']"
    "getIn_output_formats tiff_service = [''image/tiff'']"
    "getIn_output_formats png_service = [''image/png'', ''image/tiff'']"
    by (simp_all add: example_defs getIn_output_formats_def)
  have a: "''image/png'' = ''image/png''" "\<not> ''image/tiff'' = ''image/png''"
    by simp_all
  from filterOutputFormatMatches_png[of plain_operation png_context tiff_service png_service
         "(=)", OF h a] h
  show ?thesis by simp
qed

text \<open>
  Claim C5. Let the operation name variables on some source and let no candidate
  that matches the operation's collections be flagged for variable subsetting. Then
  \<open>chooseServiceConfig\<close> returns the module's \<open>noOpService\<close> object, and its message
  contains \<open>variable subsetting\<close>, given that \<open>listToText\<close> renders every item of its
  list. The variable-subsetting stage filters by the flag when the operation names
  variables; otherwise it returns the candidates it was given (which, coming from the
  collection stage, are not empty).
\<close>

theorem chooseServiceConfig_variable_subsetting:
  assumes "\<forall>xs. \<forall>x\<in>set xs. sublist x (listToText xs)"
  shows "(requiresVariableSubsetting operation \<longrightarrow>
          filter_raising (isCollectionMatch operation) configs = Inr collectionMatches \<longrightarrow>
          supportsVariableSubsetting collectionMatches = [] \<longrightarrow>
          (\<exists>st' explanation.
              chooseServiceConfig accepted listToText st operation context configs
                = (Inr NoOpServiceRef, operation, st')
            \<and> message (noOpService st') = Some explanation
            \<and> sublist ''variable subsetting'' explanation))
       \<and> (requiresVariableSubsetting operation \<longrightarrow>
            filterVariableSubsettingMatches operation context matches
              = (operation,
                 if supportsVariableSubsetting matches = []
                 then Inl (UnsupportedOperation
                   ''none of the services configured for the collection support variable subsetting'')
                 else Inr (supportsVariableSubsetting matches)))
       \<and> (\<not> requiresVariableSubsetting operation \<longrightarrow> matches \<noteq> [] \<longrightarrow>
            filterVariableSubsettingMatches operation context matches
              = (operation, Inr matches))"
proof -
  have A: "\<exists>st' explanation.
              chooseServiceConfig accepted listToText st operation context configs
                = (Inr NoOpServiceRef, operation, st')
            \<and> message (noOpService st') = Some explanation
            \<and> sublist ''variable subsetting'' explanation"
    if r: "requiresVariableSubsetting operation"
      and c: "filter_raising (isCollectionMatch operation) configs = Inr collectionMatches"
      and s: "supportsVariableSubsetting collectionMatches = []"
  proof -
    have "\<exists>reason. runFilters (operationFilterFns accepted) operation context configs
            = (operation, Inl (UnsupportedOperation reason))"
      using r c s
      by (cases "collectionMatches = []")
         (auto simp: operationFilterFns_def filterCollectionMatches_def
            filterVariableSubsettingMatches_def Let_def)
    then show ?thesis
      using message_variable_subsetting[OF assms r, of "context"]
      by (auto simp: chooseServiceConfig_def)
  qed
  have B: "filterVariableSubsettingMatches operation context matches
              = (operation,
                 if supportsVariableSubsetting matches = []
                 then Inl (UnsupportedOperation
                   ''none of the services configured for the collection support variable subsetting'')
                 else Inr (supportsVariableSubsetting matches))"
    if "requiresVariableSubsetting operation"
    using that by (simp add: filterVariableSubsettingMatches_def Let_def)
  have C: "filterVariableSubsettingMatches operation context matches
             = (operation, Inr matches)"
    if "\<not> requiresVariableSubsetting operation" "matches \<noteq> []"
    using that by (simp add: filterVariableSubsettingMatches_def Let_def)
  from A B C show ?thesis by blast
qed

theorem chooseServiceConfig_variable_subsetting_witness:
  "requiresVariableSubsetting variable_operation
   \<and> filter_raising (isCollectionMatch variable_operation) [tiff_service, png_service]
       = Inr [tiff_service, png_service]
   \<and> supportsVariableSubsetting [tiff_service, png_service] = []
   \<and> (\<exists>st' explanation.
         chooseServiceConfig (=) (join '', '') module_initial variable_operation png_context
           [tiff_service, png_service]
           = (Inr NoOpServiceRef, variable_operation, st')
       \<and> message (noOpService st') = Some explanation
       \<and> sublist ''variable subsetting'' explanation)
   \<and> \<not> requiresVariableSubsetting plain_operation
   \<and> filterVariableSubsettingMatches plain_operation png_context [tiff_service]
       = (plain_operation, Inr [tiff_service])"
proof -
  have r: "requiresVariableSubsetting variable_operation"
    by (simp add: requiresVariableSubsetting_def example_defs)
  have c: "filter_raising (isCollectionMatch variable_operation) [tiff_service, png_service]
       = Inr [tiff_service, png_service]"
    by (simp add: isCollectionMatch_def example_defs)
  have s: "supportsVariableSubsetting [tiff_service, png_service] = []"
    by (simp add: supportsVariableSubsetting_def getIn_subsetting_def example_defs)
  have n: "\<not> requiresVariableSubsetting plain_operation"
    by (simp add: requiresVariableSubsetting_def example_defs)
  have ne: "[tiff_service] \<noteq> []" by simp
  note vs = chooseServiceConfig_variable_subsetting[OF join_renders_items[of "'', ''"]]
  from vs[THEN conjunct1, rule_format, OF r c s, of "(=)" module_initial png_context]
       vs[THEN conjunct2, THEN conjunct2, rule_format, OF n ne, of png_context]
       r c s n
  show ?thesis by simp
qed

section \<open>The fallback message\<close>

text \<open>
  Claim C9. In the message built by \<open>unsupportedCombinationMessage\<close> the mime types
  \<open>*\<close> and \<open>*/*\<close> do not count as a request for reformatting: when the operation
  asks for neither variable nor spatial subsetting, has no output format set, and the
  requested mime types are all \<open>*\<close> or \<open>*/*\<close>, the message is
  \<open>no operations can be performed on\<close> followed by the list of collections.
\<close>

theorem unsupportedCombinationMessage_wildcards:
  assumes "\<not> requiresVariableSubsetting operation"
    and "\<not> requiresSpatialSubsetting operation"
    and "outputFormat operation = None"
    and "requestedMimeTypes context = Some mimeTypes"
    and "\<forall>f\<in>set mimeTypes. f = ''*'' \<or> f = ''*/*''"
  shows "unsupportedCombinationMessage listToText operation context
           = ''no operations can be performed on ''
             @ listToText (map collection (sources operation))"
proof -
  from assms(5) have "filter (\<lambda>f. f \<noteq> ''*'' \<and> f \<noteq> ''*/*'') mimeTypes = []"
    by (induction mimeTypes) auto
  with assms(1-4) show ?thesis
    by (simp add: unsupportedCombinationMessage_def Let_def truthy_def)
qed

theorem unsupportedCombinationMessage_wildcards_witness:
  "\<not> requiresVariableSubsetting plain_operation
   \<and> \<not> requiresSpatialSubsetting plain_operation
   \<and> outputFormat plain_operation = None
   \<and> requestedMimeTypes wildcard_context = Some [''*/*'', ''*'']
   \<and> unsupportedCombinationMessage (join '', '') plain_operation wildcard_context
       = ''no operations can be performed on C1-PROV''"
proof -
  have h: "\<not> requiresVariableSubsetting plain_operation"
    "\<not> requiresSpatialSubsetting plain_operation"
    "outputFormat plain_operation = None"
    "requestedMimeTypes wildcard_context = Some [''*/*'', ''*'']"
    by (simp_all add: requiresVariableSubsetting_def requiresSpatialSubsetting_def
        example_defs)
  have w: "\<forall>f\<in>set [''*/*'', ''*'']. f = ''*'' \<or> f = ''*/*''"
    by simp
  from unsupportedCombinationMessage_wildcards[OF h w, of "join '', ''"] h
  show ?thesis by (simp add: example_defs)
qed


section \<open>Selection: what a call changes\<close>




text \<open>
  The module's \<open>noOpService\<close> object can itself be a candidate. With no sources it
  passes the collection stage, and when the operation asks for spatial subsetting the
  call falls back and writes the message of this candidate.
\<close>

lemma noOpService_candidate_is_written:
  "read_descriptor
     (snd (snd (chooseServiceConfig_on_heap (=) (join '', '') example_heap spatial_operation
        empty_context [ModuleNoOpService])))
     ModuleNoOpService
   = (read_descriptor example_heap ModuleNoOpService)\<lparr> message := Some
       ''the requested combination of operations: spatial subsetting on  is unsupported'' \<rparr>"
  by (simp add: chooseServiceConfig_on_heap_def chooseServiceConfig_def read_descriptor_def
      unsupportedCombinationMessage_def selection_defs example_defs)




text \<open>
  Claim C10. The fallback is one object of the module, written in place. When two
  calls in a row both fall back, both return the same reference, and the object it
  refers to carries the message of the first call after the first call and the
  message of the second call after the second.
\<close>

theorem noOpService_is_shared:
  assumes "runFilters (operationFilterFns accepted) operation1 context1 configs1
             = (operation1', Inl (UnsupportedOperation reason1))"
    and "chooseServiceConfig accepted listToText st operation1 context1 configs1
             = (result1, o1, st1)"
    and "runFilters (operationFilterFns accepted) operation2 context2 configs2
             = (operation2', Inl (UnsupportedOperation reason2))"
    and "chooseServiceConfig accepted listToText st1 operation2 context2 configs2
             = (result2, o2, st2)"
  shows "result1 = Inr NoOpServiceRef \<and> result2 = result1
       \<and> deref st1 NoOpServiceRef
           = Some ((noOpService st)\<lparr> message :=
                Some (unsupportedCombinationMessage listToText operation1' context1) \<rparr>)
       \<and> deref st2 NoOpServiceRef
           = Some ((noOpService st)\<lparr> message :=
                Some (unsupportedCombinationMessage listToText operation2' context2) \<rparr>)"
  using assms by (auto simp: chooseServiceConfig_def deref_def)

theorem noOpService_is_shared_witness:
  "\<exists>result1 o1 st1 result2 o2 st2.
     chooseServiceConfig (=) (join '', '') module_initial variable_operation png_context []
       = (result1, o1, st1)
     \<and> chooseServiceConfig (=) (join '', '') st1 plain_operation wildcard_context []
       = (result2, o2, st2)
     \<and> result1 = Inr NoOpServiceRef \<and> result2 = result1
     \<and> deref st1 NoOpServiceRef
         = Some (noOpService_initial\<lparr> message := Some
            ''the requested combination of operations: variable subsetting, reformatting to image/png on C1-PROV is unsupported'' \<rparr>)
     \<and> deref st2 NoOpServiceRef
         = Some (noOpService_initial\<lparr> message := Some
            ''no operations can be performed on C1-PROV'' \<rparr>)"
proof -
  obtain result1 o1 st1
    where c1: "chooseServiceConfig (=) (join '', '') module_initial variable_operation
                 png_context [] = (result1, o1, st1)"
    using prod_cases3 by blast
  obtain result2 o2 st2
    where c2: "chooseServiceConfig (=) (join '', '') st1 plain_operation wildcard_context []
                 = (result2, o2, st2)"
    using prod_cases3 by blast
  have u1: "runFilters (operationFilterFns (=)) variable_operation png_context []
      = (variable_operation,
         Inl (UnsupportedOperation ''no services are configured for the collection''))"
    by (simp add: operationFilterFns_def filterCollectionMatches_def)
  have u2: "runFilters (operationFilterFns (=)) plain_operation wildcard_context []
      = (plain_operation,
         Inl (UnsupportedOperation ''no services are configured for the collection''))"
    by (simp add: operationFilterFns_def filterCollectionMatches_def)
  have m1: "unsupportedCombinationMessage (join '', '') variable_operation png_context
      = ''the requested combination of operations: variable subsetting, reformatting to image/png on C1-PROV is unsupported''"
    by (simp add: unsupportedCombinationMessage_def selection_defs example_defs)
  have m2: "unsupportedCombinationMessage (join '', '') plain_operation wildcard_context
      = ''no operations can be performed on C1-PROV''"
    by (simp add: unsupportedCombinationMessage_def selection_defs example_defs)
  have n: "noOpService module_initial = noOpService_initial"
    by (simp add: module_initial_def)
  from noOpService_is_shared[OF u1 c1 u2 c2] c1 c2 show ?thesis
    unfolding m1 m2 n by blast
qed

section \<open>The local Docker service on exit of the child\<close>

text \<open>
  The exit code does not enter the listener's decision. A child that exits with code
  1 when the callback URL is no longer bound gets no notification from the adapter.
\<close>

theorem exitListener_nonzero_unbound:
  "exitListener (\<lambda>url. False) (snd (invokeAsync None plain_operation)) (Some 1) None [] = []"
  by (simp add: exitListener_def)

text \<open>
  Claim C2, amended. When the child exits, with any exit code and signal, the adapter
  posts exactly one request, with the error
  \<open>Service request failed with an unknown error.\<close>, to the operation's original
  callback (as it was before \<open>_invokeAsync\<close> rewrote it) if that callback URL is still
  bound, and posts nothing if it is not.
\<close>

theorem exitListener_posts_iff_bound:
  "exitListener isUrlBound (snd (invokeAsync CALLBACK_HOST operation)) code signal posted
     = (if isUrlBound (callback operation)
        then posted @ [\<lparr> baseURL = callback operation @ ''/response'',
                          query = [(''error'',
                             ''Service request failed with an unknown error.'')] \<rparr>]
        else posted)"
  by (simp add: exitListener_def invokeAsync_def childProcessAborted_def Let_def)

section \<open>The service factory\<close>

text \<open>
  For a type name that is not the name of a property of \<open>Object.prototype\<close>,
  \<open>buildService\<close> raises the \<open>NotFoundError\<close> exactly when no class is registered
  under the name; for a registered class it returns the service, wrapped in an
  \<open>AsynchronizerService\<close> when the type is flagged \<open>synchronous_only\<close> or
  \<open>single_granule_requests\<close>.
\<close>

lemma buildService_own_properties:
  assumes "type_name (service_type serviceConfig) \<notin> set objectPrototypeProperties"
  shows "buildService serviceConfig operation =
     (case map_of serviceTypesToServiceClasses (type_name (service_type serviceConfig)) of
        None \<Rightarrow> Inl (NotFoundError notFoundMessage)
      | Some c \<Rightarrow>
          if flag (synchronous_only (service_type serviceConfig))
             \<or> flag (single_granule_requests (service_type serviceConfig))
          then Inr (AsynchronizerService (Class c) serviceConfig operation)
          else Inr (Service c serviceConfig operation))"
  using assms
  by (simp add: buildService_def property_of_serviceTypesToServiceClasses_def
      new_ServiceClass_def Let_def split: option.splits)

text \<open>
  Claim C7. No class is registered under the type name \<open>constructor\<close>, and yet
  \<open>buildService\<close> raises no \<open>NotFoundError\<close> for it: the table lookup finds the
  inherited \<open>Object\<close>, and \<open>new Object(serviceConfig, operation)\<close> returns the
  configuration object.
\<close>

theorem buildService_constructor:
  "map_of serviceTypesToServiceClasses (type_name (service_type constructor_service)) = None
   \<and> buildService constructor_service plain_operation
       = Inr (ConfigObject constructor_service)"
  by (simp add: buildService_def property_of_serviceTypesToServiceClasses_def
      new_ServiceClass_def serviceTypesToServiceClasses_def objectPrototypeProperties_def
      constructor_service_def flag_def Let_def)


end
